theory Spec2Isabelle
  imports Main
begin

section \<open>The packaging manifest \<open>setup.py\<close> of \<open>insights_publisher\<close>\<close>

text \<open>
  The repository consists of one file, \<open>setup.py\<close>: an import from \<open>setuptools\<close>
  followed by a single call \<open>setup(...)\<close> with ten keyword arguments and no positional one.
  The file is embedded as its syntax tree: expressions as a datatype, the module as its
  list of statements. Keyword arguments are an association list, in source order.
\<close>

subsection \<open>Expressions and statements\<close>

datatype pyexpr =
    Name string
  | Str string
  | BoolE bool
  | ListE "pyexpr list"
  | Attr pyexpr string
  | Subscript pyexpr pyexpr
  | Call pyexpr "pyexpr list" "(string \<times> pyexpr) list"

datatype pystmt =
    ImportFrom string "string list"
  | ExprStmt pyexpr

subsection \<open>The source\<close>

text \<open>Lines 4 to 13 of \<open>setup.py\<close>: the keyword arguments of the \<open>setup\<close> call.\<close>

definition setup_kwargs :: "(string \<times> pyexpr) list" where
  "setup_kwargs =
    [ (''name'', Str ''insights_publisher''),
      (''description'', Str ''A package to streamline publication workflows for Knowledge Repo and tie published work to GitHub commits.''),
      (''url'', Str ''https://github.com/CPapadim/insights_publisher''),
      (''version'', Str ''0.1.0''),
      (''author'', Str ''Charalampos Papadimitriou''),
      (''author_email'', Str ''papadimitriou.c@gmail.com''),
      (''license'', Str ''MIT''),
      (''packages'', Call (Name ''find_packages'') [] []),
      (''zip_safe'', BoolE False),
      (''scripts'', ListE [Str ''insights_publisher/publisher'']) ]"

text \<open>The whole module: line 1 is the import, lines 3 to 14 the call statement.\<close>

definition setup_py :: "pystmt list" where
  "setup_py =
    [ ImportFrom ''setuptools'' [''setup'', ''find_packages''],
      ExprStmt (Call (Name ''setup'') [] setup_kwargs) ]"

subsection \<open>Reading the syntax tree\<close>

text \<open>The value bound to a keyword of the \<open>setup\<close> call, if the keyword is passed.\<close>

definition kwarg :: "string \<Rightarrow> pyexpr option" where
  "kwarg k = map_of setup_kwargs k"

text \<open>The keywords of the \<open>setup\<close> call, in source order.\<close>

definition kwarg_names :: "string list" where
  "kwarg_names = map fst setup_kwargs"

text \<open>Every identifier that occurs in an expression, left to right.\<close>

fun names :: "pyexpr \<Rightarrow> string list" where
  "names (Name n) = [n]"
| "names (Str s) = []"
| "names (BoolE b) = []"
| "names (ListE xs) = concat (map names xs)"
| "names (Attr e a) = names e"
| "names (Subscript e i) = names e @ names i"
| "names (Call f args kws) =
     names f @ concat (map names args) @ concat (map (\<lambda>kv. names (snd kv)) kws)"

text \<open>The \<open>from ... import ...\<close> statements of a module.\<close>

fun imports_of :: "pystmt list \<Rightarrow> (string \<times> string list) list" where
  "imports_of [] = []"
| "imports_of (ImportFrom m ns # rest) = (m, ns) # imports_of rest"
| "imports_of (ExprStmt e # rest) = imports_of rest"

text \<open>The expression statements of a module.\<close>

fun exprs_of :: "pystmt list \<Rightarrow> pyexpr list" where
  "exprs_of [] = []"
| "exprs_of (ImportFrom m ns # rest) = exprs_of rest"
| "exprs_of (ExprStmt e # rest) = e # exprs_of rest"

subsection \<open>Vocabulary of the specification\<close>

text \<open>
  The metadata fields the specification enumerates for the manifest: name, description,
  URL, version, author (with the author's email), license, the package list and the
  entry-point script reference, under the keywords \<open>setuptools\<close> gives them.
\<close>

definition spec_enumerated_fields :: "string set" where
  "spec_enumerated_fields =
    {''name'', ''description'', ''url'', ''version'', ''author'', ''author_email'',
     ''license'', ''packages'', ''scripts''}"

text \<open>
  The keywords of \<open>setuptools.setup\<close> that declare something executable: \<open>scripts\<close>
  (files installed as executables) and \<open>entry_points\<close> (among them \<open>console_scripts\<close>).
\<close>

definition executable_keywords :: "string set" where
  "executable_keywords = {''scripts'', ''entry_points''}"

subsection \<open>Shapes of keyword values\<close>

text \<open>A string literal, and nothing else.\<close>

fun is_str :: "pyexpr \<Rightarrow> bool" where
  "is_str (Str s) = True"
| "is_str (Name n) = False"
| "is_str (BoolE b) = False"
| "is_str (ListE xs) = False"
| "is_str (Attr e a) = False"
| "is_str (Subscript e i) = False"
| "is_str (Call f args kws) = False"

text \<open>
  A value that reads nothing at all: a string literal, a boolean literal, a list display
  of string literals, or the call \<open>find_packages()\<close> with no argument. A bare name, an
  attribute access, a subscript and every other call are excluded, so reading an
  environment variable, in whatever way it is spelt (\<open>os.environ[...]\<close>, \<open>os.getenv(...)\<close>,
  or a chain of attributes and subscripts starting at a literal), is excluded.
\<close>

fun plain_value :: "pyexpr \<Rightarrow> bool" where
  "plain_value (Str s) = True"
| "plain_value (BoolE b) = True"
| "plain_value (ListE xs) = list_all is_str xs"
| "plain_value (Call f args kws) = (f = Name ''find_packages'' \<and> args = [] \<and> kws = [])"
| "plain_value (Name n) = False"
| "plain_value (Attr e a) = False"
| "plain_value (Subscript e i) = False"

section \<open>Well-formedness of the call\<close>

text \<open>
  No keyword is repeated (Python rejects a call that repeats one), so looking a keyword
  up in the association list gives the one value the source binds to it.
\<close>

lemma kwarg_names_distinct: "distinct kwarg_names"
  by (simp add: kwarg_names_def setup_kwargs_def)

lemma setup_py_call: "exprs_of setup_py = [Call (Name ''setup'') [] setup_kwargs]"
  by (simp add: setup_py_def)

section \<open>The claims\<close>

text \<open>
  C1. The \<open>scripts\<close> argument of the \<open>setup\<close> call is a list of one element, the
  string \<open>insights_publisher/publisher\<close>: the manifest declares exactly one script.
\<close>

theorem scripts_single_publisher:
  "kwarg ''scripts'' = Some (ListE [Str ''insights_publisher/publisher''])"
  by (simp add: kwarg_def setup_kwargs_def)

text \<open>
  C2, as stated: every keyword of the \<open>setup\<close> call is one of the fields the
  specification enumerates. The call also passes \<open>zip_safe\<close>, which the enumeration
  does not contain, so the inclusion fails.
\<close>

theorem kwargs_within_enumeration_counterexample:
  "\<not> set kwarg_names \<subseteq> spec_enumerated_fields"
  by (simp add: kwarg_names_def setup_kwargs_def spec_enumerated_fields_def)

text \<open>
  C2, amended: the keywords of the \<open>setup\<close> call are exactly the fields the
  specification enumerates together with \<open>zip_safe\<close>; there is no other keyword.
\<close>

theorem kwargs_are_enumeration_plus_zip_safe:
  "set kwarg_names = insert ''zip_safe'' spec_enumerated_fields"
  by (auto simp add: kwarg_names_def setup_kwargs_def spec_enumerated_fields_def)

text \<open>
  C3. The \<open>name\<close> argument of the \<open>setup\<close> call is the string \<open>insights_publisher\<close>.
\<close>

theorem name_is_insights_publisher:
  "kwarg ''name'' = Some (Str ''insights_publisher'')"
  by (simp add: kwarg_def setup_kwargs_def)

text \<open>
  C4. The \<open>version\<close> argument of the \<open>setup\<close> call is the string \<open>0.1.0\<close>.
\<close>

theorem version_is_0_1_0:
  "kwarg ''version'' = Some (Str ''0.1.0'')"
  by (simp add: kwarg_def setup_kwargs_def)

text \<open>
  C5. The \<open>license\<close> argument of the \<open>setup\<close> call is the string \<open>MIT\<close>.
\<close>

theorem license_is_MIT:
  "kwarg ''license'' = Some (Str ''MIT'')"
  by (simp add: kwarg_def setup_kwargs_def)

text \<open>
  C6. The \<open>packages\<close> argument of the \<open>setup\<close> call is the call \<open>find_packages()\<close>,
  with no positional and no keyword argument, and the \<open>setup\<close> call passes no
  \<open>install_requires\<close>: packages are discovered by \<open>find_packages\<close>, not listed, and no
  dependency list is declared.
\<close>

theorem packages_is_find_packages_call:
  "kwarg ''packages'' = Some (Call (Name ''find_packages'') [] [])
   \<and> kwarg ''install_requires'' = None"
  by (simp add: kwarg_def setup_kwargs_def)

text \<open>
  C7. The \<open>description\<close> argument of the \<open>setup\<close> call is the sentence about
  streamlining publication workflows for Knowledge Repo and tying published work to
  GitHub commits, character for character.
\<close>

theorem description_is_publication_workflow_sentence:
  "kwarg ''description'' =
     Some (Str ''A package to streamline publication workflows for Knowledge Repo and tie published work to GitHub commits.'')"
  by (simp add: kwarg_def setup_kwargs_def)

text \<open>
  C8. The manifest declares no \<open>entry_points\<close> (hence no \<open>console_scripts\<close>). Every
  keyword value of the \<open>setup\<close> call is a string literal, a boolean literal, a list of
  string literals or the call \<open>find_packages()\<close>: none is an attribute access, a
  subscript, a bare name or any other call, so none reads an environment variable. The
  module imports only \<open>setup\<close> and \<open>find_packages\<close> from \<open>setuptools\<close>, and these two are
  the only identifiers its expressions mention. Among the keywords that declare something
  executable the call passes only \<open>scripts\<close>, with its single entry.
\<close>

theorem only_executable_surface_is_scripts:
  "''entry_points'' \<notin> set kwarg_names
   \<and> list_all plain_value (map snd setup_kwargs)
   \<and> imports_of setup_py = [(''setuptools'', [''setup'', ''find_packages''])]
   \<and> concat (map names (exprs_of setup_py)) = [''setup'', ''find_packages'']
   \<and> filter (\<lambda>kv. fst kv \<in> executable_keywords) setup_kwargs
       = [(''scripts'', ListE [Str ''insights_publisher/publisher''])]"
  by (simp add: kwarg_names_def setup_py_def setup_kwargs_def executable_keywords_def)

text \<open>
  C9. The \<open>setup\<close> call passes \<open>zip_safe=False\<close>, and \<open>zip_safe\<close> is not among the
  metadata fields the specification enumerates.
\<close>

theorem zip_safe_is_False_and_unlisted:
  "kwarg ''zip_safe'' = Some (BoolE False) \<and> ''zip_safe'' \<notin> spec_enumerated_fields"
  by (simp add: kwarg_def setup_kwargs_def spec_enumerated_fields_def)

text \<open>
  C10. The \<open>url\<close> argument of the \<open>setup\<close> call is the string
  \<open>https://github.com/CPapadim/insights_publisher\<close>.
\<close>

theorem url_is_github_insights_publisher:
  "kwarg ''url'' = Some (Str ''https://github.com/CPapadim/insights_publisher'')"
  by (simp add: kwarg_def setup_kwargs_def)

end
